theory Spec2Isabelle
  imports Complex_Main
begin

section \<open>Data model\<close>

text \<open>
  The module \<^verbatim>\<open>data_explorer.py\<close> renders charts from a tabular dataset. A row of the
  dataset carries the columns the module reads through \<^verbatim>\<open>ColumnNames\<close>. Numeric cells are
  floats in the source; the model is polymorphic in their type \<open>'a\<close> and uses of it only the
  division and the numerals the source applies, so that no law of exact arithmetic is assumed
  of them. Concrete examples are evaluated at type \<open>rat\<close>.

  A timestamp is a \<^verbatim>\<open>datetime.date\<close>, modelled by its day ordinal. An identifier that
  the code handles may be Python's \<^verbatim>\<open>None\<close>, hence \<open>string option\<close>; the identifier
  stored in a row is a string. The sampling rate is read with \<^verbatim>\<open>row.get\<close>, which tells a
  frame without the column (\<open>None\<close>) from a cell of the column, and the cell may hold
  Python's \<^verbatim>\<open>None\<close> (\<open>Some None\<close>) or a number (\<open>Some (Some f)\<close>).
\<close>

type_synonym date = int

type_synonym ident = "string option"

datatype resource_type = OBSERVATION | ECG_OBSERVATION | Other_resource string

datatype error = ValueError string | TypeError string | IndexError | ZeroDivisionError

record 'a row =
  user_id :: string
  loinc_code :: string
  effective_date_time :: date
  quantity_name :: string
  quantity_unit :: string
  quantity_value :: 'a
  ecg_recording :: "string option"
  ecg_recording_unit :: string
  sampling_frequency :: "'a option option"

record 'a fhir_dataframe =
  df :: "'a row list"
  resource_type :: resource_type

text \<open>Python's truth test of an attribute that is either \<^verbatim>\<open>None\<close> or an object.\<close>

definition truthy :: "'x option \<Rightarrow> bool" where
  "truthy v = (v \<noteq> None)"

text \<open>\<^verbatim>\<open>str(x)\<close> of an identifier, as an f-string formats it.\<close>

definition str_ident :: "ident \<Rightarrow> string" where
  "str_ident u = (case u of None \<Rightarrow> ''None'' | Some s \<Rightarrow> s)"

subsection \<open>The table operations the module uses\<close>

text \<open>
  \<^verbatim>\<open>frame[mask]\<close>: the rows at which the boolean column \<open>flags\<close> is true, in order.
  \<^verbatim>\<open>a & b\<close>: the element-wise conjunction of two boolean columns.
\<close>

definition df_where :: "'r list \<Rightarrow> bool list \<Rightarrow> 'r list" where
  "df_where rows flags = map fst (filter snd (zip rows flags))"

definition mask_and :: "bool list \<Rightarrow> bool list \<Rightarrow> bool list" where
  "mask_and a b = map2 (\<and>) a b"

text \<open>\<^verbatim>\<open>column.unique()\<close>: the distinct values in the order of their first occurrence.\<close>

fun unique_from :: "'v list \<Rightarrow> 'v list \<Rightarrow> 'v list" where
  "unique_from seen [] = []"
| "unique_from seen (x # xs) =
     (if x \<in> set seen then unique_from seen xs else x # unique_from (x # seen) xs)"

definition unique :: "'v list \<Rightarrow> 'v list" where
  "unique xs = unique_from [] xs"

text \<open>
  \<^verbatim>\<open>frame.duplicated(subset=[c])\<close>: one flag per row, true where the value of column
  \<open>c\<close> already occurred in an earlier row. \<^verbatim>\<open>.any()\<close>: some flag is true.
\<close>

fun duplicated_from :: "'v list \<Rightarrow> 'v list \<Rightarrow> bool list" where
  "duplicated_from seen [] = []"
| "duplicated_from seen (x # xs) = (x \<in> set seen) # duplicated_from (x # seen) xs"

definition duplicated :: "'v list \<Rightarrow> bool list" where
  "duplicated xs = duplicated_from [] xs"

definition any :: "bool list \<Rightarrow> bool" where
  "any bs = (True \<in> set bs)"

text \<open>\<^verbatim>\<open>a[i:j]\<close> for bounds that are not negative: the bounds are clipped to the length.\<close>

definition py_slice :: "'v list \<Rightarrow> nat \<Rightarrow> nat \<Rightarrow> 'v list" where
  "py_slice xs i j = drop i (take j xs)"

section \<open>The generic visualizer\<close>

text \<open>
  The attribute \<^verbatim>\<open>user_ids\<close> of a \<^verbatim>\<open>DataExplorer\<close> is \<^verbatim>\<open>None\<close>, a list of
  identifiers, or a single identifier that is not a list. The two Y bounds are the numbers
  handed to \<^verbatim>\<open>plt.ylim\<close>.
\<close>

datatype user_ids_value = Id_list "ident list" | Id_single string

record data_explorer =
  start_date :: "date option"
  end_date :: "date option"
  user_ids :: "user_ids_value option"
  y_lower :: "rat option"
  y_upper :: "rat option"
  combine_plots :: bool

text \<open>\<^verbatim>\<open>DataExplorer.__init__\<close>.\<close>

definition DataExplorer :: data_explorer where
  "DataExplorer =
     \<lparr>start_date = None, end_date = None, user_ids = None, y_lower = None, y_upper = None,
      combine_plots = True\<rparr>"

subsection \<open>Figures as the drawing calls made on them\<close>

text \<open>
  The plotting library is an external renderer. A figure of the generic visualizer is
  modelled as the list of \<^verbatim>\<open>pyplot\<close> calls made between \<^verbatim>\<open>plt.figure\<close> and
  \<^verbatim>\<open>plt.gcf()\<close>, in order. A title is kept as the parts its f-string formats.
\<close>

datatype plot_kind = Scatter | Bar

datatype date_range_title = For_all_dates | From_to "date option" "date option"

datatype title_subject = For_LOINC_Code string | For_User_ID string

datatype 'a plt_call =
    Plot plot_kind "date list" "'a list" string
  | Title string title_subject date_range_title
  | Xlabel string
  | Ylabel string
  | Legend
  | Xticks_rotation nat
  | Ylim "rat option" "rat option"
  | Tight_layout

type_synonym 'a figure = "'a plt_call list"

record 'a plot_info =
  plot_type :: plot_kind
  data_frame :: "'a row list"

text \<open>
  \<^verbatim>\<open>plot_data_based_on_condition\<close>: the dictionary it returns, and the one plotting call
  it makes on the current figure.
\<close>

definition plot_data_based_on_condition ::
  "'a row list \<Rightarrow> ident \<Rightarrow> 'a plot_info \<times> 'a plt_call" where
  "plot_data_based_on_condition user_df uid =
     (let kind = (if any (duplicated (map effective_date_time user_df)) then Scatter else Bar)
      in (\<lparr>plot_type = kind, data_frame = user_df\<rparr>,
          Plot kind (map effective_date_time user_df) (map quantity_value user_df)
            (''User '' @ str_ident uid)))"

definition date_range_title_of :: "date option \<Rightarrow> date option \<Rightarrow> date_range_title" where
  "date_range_title_of s e =
     (if \<not> truthy s \<and> \<not> truthy e then For_all_dates else From_to s e)"

text \<open>
  \<^verbatim>\<open>plot_combined\<close>. The loop makes one plotting call per identifier of
  \<open>users_to_plot\<close>; \<^verbatim>\<open>.iloc[0]\<close> on an empty frame raises \<^verbatim>\<open>IndexError\<close>.
\<close>

definition plot_combined ::
  "data_explorer \<Rightarrow> 'a row list \<Rightarrow> ident list \<Rightarrow> string \<Rightarrow> error + 'a figure" where
  "plot_combined self df_loinc users_to_plot code =
     (let draws =
            map (\<lambda>uid.
                  snd (plot_data_based_on_condition
                         (df_where df_loinc (map (\<lambda>r. Some (user_id r) = uid) df_loinc)) uid))
              users_to_plot;
          date_range_title = date_range_title_of (start_date self) (end_date self)
      in case df_loinc of
           [] \<Rightarrow> Inl IndexError
         | first # _ \<Rightarrow>
             Inr (draws @
                  [Title (quantity_name first) (For_LOINC_Code code) date_range_title,
                   Xlabel ''Date'',
                   Ylabel (quantity_name first @ '' ('' @ quantity_unit first @ '')''),
                   Legend, Xticks_rotation 45, Ylim (y_lower self) (y_upper self),
                   Tight_layout]))"

text \<open>
  \<^verbatim>\<open>plot_individual\<close>: what it prints, and the figure or \<^verbatim>\<open>None\<close> it returns.
\<close>

definition plot_individual ::
  "data_explorer \<Rightarrow> 'a row list \<Rightarrow> ident \<Rightarrow> string \<Rightarrow> string list \<times> 'a figure option" where
  "plot_individual self df_loinc uid code =
     (case uid of
        None \<Rightarrow> ([''User ID must be provided for individual plots.''], None)
      | Some u \<Rightarrow>
          (let user_df = df_where df_loinc (map (\<lambda>r. user_id r = u) df_loinc)
           in case user_df of
                [] \<Rightarrow>
                  ([''No data found for user ID '' @ u @ '' and LOINC code '' @ code @ ''.''],
                   None)
              | first # _ \<Rightarrow>
                  ([],
                   Some ([Title (quantity_name first) (For_User_ID u)
                            (date_range_title_of (start_date self) (end_date self)),
                          snd (plot_data_based_on_condition user_df uid),
                          Xlabel ''Date'',
                          Ylabel (quantity_name first @ '' ('' @ quantity_unit first @ '')''),
                          Legend, Xticks_rotation 45, Ylim (y_lower self) (y_upper self),
                          Tight_layout]))))"

subsection \<open>The render call\<close>

text \<open>
  The inner loop of \<^verbatim>\<open>create_static_plot\<close> over the identifiers, for one code group:
  what is printed and the figures appended. A figure object is always true in the test
  \<^verbatim>\<open>if fig := ...\<close>; only \<^verbatim>\<open>None\<close> is skipped.
\<close>

fun individual_loop ::
  "data_explorer \<Rightarrow> 'a row list \<Rightarrow> ident list \<Rightarrow> string \<Rightarrow> string list \<times> 'a figure list" where
  "individual_loop self df_loinc [] code = ([], [])"
| "individual_loop self df_loinc (uid # uids) code =
     (case plot_individual self df_loinc uid code of
        (out, fig) \<Rightarrow>
          (case individual_loop self df_loinc uids code of
             (outs, figures) \<Rightarrow>
               (out @ outs, (case fig of None \<Rightarrow> figures | Some f \<Rightarrow> f # figures))))"

text \<open>The outer loop over the codes. An exception ends the call.\<close>

fun code_loop ::
  "data_explorer \<Rightarrow> 'a row list \<Rightarrow> ident list \<Rightarrow> string list
     \<Rightarrow> string list \<times> (error + 'a figure list)" where
  "code_loop self rows uids [] = ([], Inr [])"
| "code_loop self rows uids (code # codes) =
     (let df_loinc = df_where rows (map (\<lambda>r. loinc_code r = code) rows)
      in if combine_plots self then
           (case plot_combined self df_loinc uids code of
              Inl e \<Rightarrow> ([], Inl e)
            | Inr fig \<Rightarrow>
                (case code_loop self rows uids codes of
                   (outs, Inl e) \<Rightarrow> (outs, Inl e)
                 | (outs, Inr figures) \<Rightarrow> (outs, Inr (fig # figures))))
         else
           (case individual_loop self df_loinc uids code of
              (out, figs) \<Rightarrow>
                (case code_loop self rows uids codes of
                   (outs, Inl e) \<Rightarrow> (out @ outs, Inl e)
                 | (outs, Inr figures) \<Rightarrow> (out @ outs, Inr (figs @ figures)))))"

text \<open>
  \<^verbatim>\<open>create_static_plot\<close>: what the call prints and what it returns. The date selection
  \<^verbatim>\<open>select_data_by_dates\<close> belongs to another module of the package and is the parameter
  \<open>sel\<close>. \<open>date_filtered\<close> is the frame the local name \<^verbatim>\<open>fhir_dataframe\<close> is bound
  to after the test of the two date attributes.
\<close>

definition date_filtered ::
  "('a fhir_dataframe \<Rightarrow> date \<Rightarrow> date \<Rightarrow> 'a fhir_dataframe) \<Rightarrow> data_explorer
     \<Rightarrow> 'a fhir_dataframe \<Rightarrow> 'a fhir_dataframe" where
  "date_filtered sel self fhir_dataframe =
     (case (start_date self, end_date self) of
        (Some s, Some e) \<Rightarrow> sel fhir_dataframe s e
      | _ \<Rightarrow> fhir_dataframe)"

definition create_static_plot ::
  "('a fhir_dataframe \<Rightarrow> date \<Rightarrow> date \<Rightarrow> 'a fhir_dataframe) \<Rightarrow> data_explorer
     \<Rightarrow> 'a fhir_dataframe \<Rightarrow> string list \<times> (error + 'a figure list)" where
  "create_static_plot sel self fhir_dataframe =
     (let uids =
            (case user_ids self of
               None \<Rightarrow> map Some (unique (map user_id (df fhir_dataframe)))
             | Some (Id_list l) \<Rightarrow> l
             | Some (Id_single u) \<Rightarrow> [Some u]);
          selected = date_filtered sel self fhir_dataframe
      in if df selected = [] then ([''No data for the selected date range.''], Inr [])
         else code_loop self (df selected) uids (unique (map loinc_code (df selected))))"

text \<open>
  Modelled from the spec: \<^verbatim>\<open>select_data_by_dates\<close> of the data-processing module, which
  is not among the sources. The spec describes it as the date-range row selection that, given
  the dataset and inclusive start and end dates, returns the subset whose timestamp falls
  within the range.
\<close>

definition select_data_by_dates :: "'a fhir_dataframe \<Rightarrow> date \<Rightarrow> date \<Rightarrow> 'a fhir_dataframe" where
  "select_data_by_dates fhir_dataframe s e =
     fhir_dataframe\<lparr>df :=
       filter (\<lambda>r. s \<le> effective_date_time r \<and> effective_date_time r \<le> e)
         (df fhir_dataframe)\<rparr>"

text \<open>
  The render call as a transition of the visualizer object: the attributes after the call,
  next to what the call printed and returned. The body of \<^verbatim>\<open>create_static_plot\<close> and of
  the methods it calls assigns to no attribute of \<^verbatim>\<open>self\<close>; the list held in
  \<^verbatim>\<open>user_ids\<close> is only iterated over.
\<close>

definition create_static_plot_call ::
  "('a fhir_dataframe \<Rightarrow> date \<Rightarrow> date \<Rightarrow> 'a fhir_dataframe) \<Rightarrow> 'a fhir_dataframe
     \<Rightarrow> data_explorer \<Rightarrow> (string list \<times> (error + 'a figure list)) \<times> data_explorer" where
  "create_static_plot_call sel fhir_dataframe self =
     (create_static_plot sel self fhir_dataframe, self)"

section \<open>The waveform visualizer\<close>

definition ECG_MICROVOLT_UNIT :: string where
  "ECG_MICROVOLT_UNIT = ''uV''"

definition ECG_MILLIVOLT_UNIT :: string where
  "ECG_MILLIVOLT_UNIT = ''mV''"

definition DEFAULT_SAMPLE_RATE_VALUE :: "'a::numeral" where
  "DEFAULT_SAMPLE_RATE_VALUE = 500"

definition DEFAULT_LINE_WIDTH_VALUE :: rat where
  "DEFAULT_LINE_WIDTH_VALUE = 5 / 10"

definition DEFAULT_AMPLITUDE_ECG :: rat where
  "DEFAULT_AMPLITUDE_ECG = 18 / 10"

definition DEFAULT_TIME_TICKS :: rat where
  "DEFAULT_TIME_TICKS = 2 / 10"

record ecg_explorer =
  lwidth :: rat
  start_date :: "date option"
  end_date :: "date option"
  user_ids :: "ident list option"
  amplitude_ecg :: rat
  time_ticks :: rat

text \<open>\<^verbatim>\<open>ECGExplorer.__init__\<close>.\<close>

definition ECGExplorer :: ecg_explorer where
  "ECGExplorer =
     \<lparr>lwidth = DEFAULT_LINE_WIDTH_VALUE, start_date = None, end_date = None,
      user_ids = None, amplitude_ecg = DEFAULT_AMPLITUDE_ECG,
      time_ticks = DEFAULT_TIME_TICKS\<rparr>"

subsection \<open>Reading a recording\<close>

text \<open>
  \<^verbatim>\<open>payload.split()\<close> cuts the payload at runs of white space and yields no empty token.
  The white-space characters are those of \<^verbatim>\<open>str.isspace\<close> among the first 256 code
  points.
\<close>

definition is_space :: "char \<Rightarrow> bool" where
  "is_space c =
     (let n = (of_char c :: nat)
      in (9 \<le> n \<and> n \<le> 13) \<or> (28 \<le> n \<and> n \<le> 32) \<or> n = 133 \<or> n = 160)"

fun split_from :: "string \<Rightarrow> string \<Rightarrow> string list" where
  "split_from cur [] = (if cur = [] then [] else [cur])"
| "split_from cur (c # cs) =
     (if is_space c then (if cur = [] then split_from [] cs else cur # split_from [] cs)
      else split_from (cur @ [c]) cs)"

definition str_split :: "string \<Rightarrow> string list" where
  "str_split s = split_from [] s"

text \<open>
  \<^verbatim>\<open>np.array(tokens, dtype=float)\<close> converts every token with the library's float parser,
  which is not part of this repository: the model takes it as the parameter \<open>to_float\<close>
  (\<open>None\<close> where the library rejects the token), a field of the libraries' record below. The first rejected token raises
  \<^verbatim>\<open>ValueError\<close>.
\<close>

fun array_float :: "(string \<Rightarrow> 'a option) \<Rightarrow> string list \<Rightarrow> error + 'a list" where
  "array_float to_float [] = Inr []"
| "array_float to_float (t # ts) =
     (case to_float t of
        None \<Rightarrow> Inl (ValueError t)
      | Some x \<Rightarrow>
          (case array_float to_float ts of
             Inl e \<Rightarrow> Inl e
           | Inr xs \<Rightarrow> Inr (x # xs)))"

text \<open>
  The restriction of the float parser to unsigned digit strings, on which its value is the
  number the digits denote. It is used to evaluate examples.
\<close>

definition digit_value :: "char \<Rightarrow> nat option" where
  "digit_value c =
     (let n = (of_char c :: nat) in if 48 \<le> n \<and> n \<le> 57 then Some (n - 48) else None)"

fun digits_nat :: "nat \<Rightarrow> string \<Rightarrow> nat option" where
  "digits_nat acc [] = Some acc"
| "digits_nat acc (c # cs) =
     (case digit_value c of None \<Rightarrow> None | Some d \<Rightarrow> digits_nat (10 * acc + d) cs)"

definition digits_float :: "string \<Rightarrow> rat option" where
  "digits_float s = (if s = [] then None else map_option of_nat (digits_nat 0 s))"

subsection \<open>The array and plotting libraries\<close>

text \<open>
  \<^verbatim>\<open>numpy\<close> and \<^verbatim>\<open>matplotlib\<close> are not part of the repository. The model records
  every call the repository makes on an axes object, with the arguments the repository computes
  for it, and takes from the libraries, as the parameter \<open>lib\<close>: the float parser, the
  array \<^verbatim>\<open>np.arange(start, stop, step)\<close> or the exception it raises, and for every call on
  an axes object the exception the library raises in it, if any (\<^verbatim>\<open>ax.plot\<close> raises when
  its two arrays differ in length, for one). Nothing is assumed of the rounding of float
  arithmetic.

  A title is kept as the three parts its f-string formats. \<open>Set_xticks secs ticks\<close> is
  \<^verbatim>\<open>ax.set_xticks(np.arange(0, secs + ticks, ticks))\<close>, \<open>Set_yticks amp\<close> is
  \<^verbatim>\<open>ax.set_yticks(np.arange(-ceil(amp), ceil(amp), 1.0))\<close>, \<open>Set_ylim amp\<close> is
  \<^verbatim>\<open>ax.set_ylim(-amp, amp)\<close>, \<open>Set_xlim secs\<close> is \<^verbatim>\<open>ax.set_xlim(0, secs)\<close>,
  \<open>Grid which color\<close> is \<^verbatim>\<open>ax.grid(which=..., color=...)\<close>,
  \<open>Plot_line x y width\<close> is \<^verbatim>\<open>ax.plot(x, y, linewidth=width)\<close> and \<open>Axes_text s\<close>
  is \<^verbatim>\<open>ax.text(0.5, 0.5, s, ...)\<close>.
\<close>

record lead_title =
  part :: nat
  title_user :: ident
  title_date :: date

datatype 'a axes_call =
    Set_title lead_title
  | Set_ylabel string
  | Set_xlabel string
  | Set_xticks 'a rat
  | Set_yticks rat
  | Minorticks_on
  | Set_minor_locator nat
  | Set_ylim rat
  | Set_xlim 'a
  | Grid string string
  | Plot_line "'a list" "'a list" rat
  | Axes_text string

record 'a library =
  to_float :: "string \<Rightarrow> 'a option"
  arange :: "'a \<Rightarrow> 'a \<Rightarrow> 'a \<Rightarrow> error + 'a list"
  raises :: "'a axes_call \<Rightarrow> error option"

type_synonym 'a axes = "'a axes_call list"

type_synonym 'a ecg_figure = "'a axes list"

text \<open>
  Calls made one after the other on an axes object: the first exception ends them; without
  one, the axes object holds the calls.
\<close>

fun call_axes :: "'a library \<Rightarrow> 'a axes_call list \<Rightarrow> error + 'a axes" where
  "call_axes lib [] = Inr []"
| "call_axes lib (c # cs) =
     (case raises lib c of
        Some e \<Rightarrow> Inl e
      | None \<Rightarrow>
          (case call_axes lib cs of
             Inl e \<Rightarrow> Inl e
           | Inr made \<Rightarrow> Inr (c # made)))"

text \<open>The steps of a loop, in order: the first exception ends the loop.\<close>

fun in_turn :: "(error + 'x) list \<Rightarrow> error + 'x list" where
  "in_turn [] = Inr []"
| "in_turn (r # rs) =
     (case r of
        Inl e \<Rightarrow> Inl e
      | Inr x \<Rightarrow>
          (case in_turn rs of
             Inl e \<Rightarrow> Inl e
           | Inr xs \<Rightarrow> Inr (x # xs)))"

text \<open>\<^verbatim>\<open>len(ecg)\<close> as a number of the type of the samples.\<close>

fun of_len :: "nat \<Rightarrow> 'a::{zero,one,plus}" where
  "of_len 0 = 0"
| "of_len (Suc n) = of_len n + 1"

subsection \<open>One figure per recording\<close>

text \<open>\<^verbatim>\<open>_ax_plot\<close>: the calls it makes on the axes object.\<close>

definition ax_plot ::
  "'a library \<Rightarrow> ecg_explorer \<Rightarrow> 'a list \<Rightarrow> 'a list \<Rightarrow> 'a \<Rightarrow> error + 'a axes" where
  "ax_plot lib self x y secs =
     call_axes lib
       [Set_xticks secs (time_ticks self), Set_yticks (amplitude_ecg self), Minorticks_on,
        Set_minor_locator 5, Set_ylim (amplitude_ecg self), Set_xlim secs,
        Grid ''major'' ''red'', Grid ''minor'' ''(1, 0.7, 0.7)'',
        Plot_line x y (lwidth self)]"

text \<open>
  \<^verbatim>\<open>_plot_single_lead_ecg\<close>, called with an axes object. The sample rate is the cell read
  from the row: dividing by \<^verbatim>\<open>None\<close> raises \<^verbatim>\<open>TypeError\<close>, dividing by a number of
  Python that is zero raises \<^verbatim>\<open>ZeroDivisionError\<close>. A \<^verbatim>\<open>Decimal\<close> is converted to a
  float first; the model has one type of numbers.
\<close>

definition plot_single_lead_ecg ::
  "('a::{inverse,numeral,zero,times}) library \<Rightarrow> ecg_explorer \<Rightarrow> 'a list \<Rightarrow> 'a option
     \<Rightarrow> lead_title \<Rightarrow> error + 'a axes" where
  "plot_single_lead_ecg lib self ecg sample_rate title =
     (case call_axes lib [Set_title title, Set_ylabel ''ECG (mV)'', Set_xlabel ''Time (sec)''] of
        Inl e \<Rightarrow> Inl e
      | Inr labelled \<Rightarrow>
          (case sample_rate of
             None \<Rightarrow> Inl (TypeError ''NoneType'')
           | Some rate \<Rightarrow>
               if rate = 0 then Inl ZeroDivisionError
               else
                 (let seconds = of_len (length ecg) / rate;
                      step = 1 / rate
                  in case arange lib 0 (of_len (length ecg) * step) step of
                       Inl e \<Rightarrow> Inl e
                     | Inr x \<Rightarrow>
                         (case ax_plot lib self x ecg seconds of
                            Inl e \<Rightarrow> Inl e
                          | Inr plotted \<Rightarrow> Inr (labelled @ plotted)))))"

definition ecg_parts :: "'v list \<Rightarrow> 'v list list" where
  "ecg_parts ecg_array =
     (let split_length = length ecg_array div 3
      in map (\<lambda>i. py_slice ecg_array (i * split_length) ((i + 1) * split_length)) [0..<3])"

text \<open>
  The array \<^verbatim>\<open>ecg_array\<close> after the test of the recording's unit: divided by 1000 when the
  unit is the microvolt unit, as parsed for every other unit.
\<close>

definition ecg_array_of :: "('a::{inverse,numeral}) row \<Rightarrow> 'a list \<Rightarrow> 'a list" where
  "ecg_array_of r parsed =
     (if ecg_recording_unit r = ECG_MICROVOLT_UNIT then map (\<lambda>x. x / 1000) parsed else parsed)"

text \<open>
  The local \<^verbatim>\<open>sample_rate\<close>: \<^verbatim>\<open>row.get(column, DEFAULT_SAMPLE_RATE_VALUE)\<close> gives the
  default only for a frame without the column, and the cell otherwise.
\<close>

definition sample_rate_of :: "('a::numeral) row \<Rightarrow> 'a option" where
  "sample_rate_of r =
     (case sampling_frequency r of
        Some held \<Rightarrow> held
      | None \<Rightarrow> Some DEFAULT_SAMPLE_RATE_VALUE)"

text \<open>
  The body of the loop of \<^verbatim>\<open>plot_single_user_ecg\<close>: the figure of one row, which is its
  three axes objects, or the exception that ends the call.
\<close>

definition plot_row ::
  "('a::{inverse,numeral,zero,times}) library \<Rightarrow> ecg_explorer \<Rightarrow> ident \<Rightarrow> 'a row
     \<Rightarrow> error + 'a ecg_figure" where
  "plot_row lib self uid r =
     (case ecg_recording r of
        Some payload \<Rightarrow>
          (case array_float (to_float lib) (str_split payload) of
             Inl e \<Rightarrow> Inl e
           | Inr parsed \<Rightarrow>
               (let ecg_array = ecg_array_of r parsed;
                    sample_rate = sample_rate_of r
                in in_turn
                     (map (\<lambda>(i, ecg).
                            plot_single_lead_ecg lib self ecg sample_rate
                              \<lparr>part = i + 1, title_user = uid,
                               title_date = effective_date_time r\<rparr>)
                        (enumerate 0 (ecg_parts ecg_array)))))
      | None \<Rightarrow>
          in_turn
            (map (\<lambda>i. call_axes lib [Axes_text ''No ECG data available for this recording.''])
               [0..<3]))"

definition plot_single_user_ecg ::
  "('a::{inverse,numeral,zero,times}) library \<Rightarrow> ecg_explorer \<Rightarrow> 'a row list \<Rightarrow> ident
     \<Rightarrow> error + 'a ecg_figure list" where
  "plot_single_user_ecg lib self user_rows uid = in_turn (map (plot_row lib self uid) user_rows)"

text \<open>The samples an axes object shows: the second array of its \<^verbatim>\<open>ax.plot\<close> calls.\<close>

fun call_samples :: "'a axes_call \<Rightarrow> 'a list" where
  "call_samples (Plot_line x y width) = y"
| "call_samples c = []"

definition axes_samples :: "'a axes \<Rightarrow> 'a list" where
  "axes_samples ax = concat (map call_samples ax)"

subsection \<open>The render call of the waveform visualizer\<close>

text \<open>
  The value of the local variable \<^verbatim>\<open>user_data\<close> of \<^verbatim>\<open>plot_ecg_subplots\<close> in the
  iteration for one identifier: the rows the visualizer selects for it.
\<close>

definition user_data :: "ecg_explorer \<Rightarrow> 'a fhir_dataframe \<Rightarrow> ident \<Rightarrow> 'a row list" where
  "user_data self fhir_dataframe uid =
     (let rows = df fhir_dataframe
      in case (start_date self, end_date self) of
           (Some s, Some e) \<Rightarrow>
             df_where rows
               (mask_and
                  (mask_and (map (\<lambda>r. Some (user_id r) = uid) rows)
                     (map (\<lambda>r. effective_date_time r \<ge> s) rows))
                  (map (\<lambda>r. effective_date_time r \<le> e) rows))
         | _ \<Rightarrow> df_where rows (map (\<lambda>r. Some (user_id r) = uid) rows))"

fun user_loop ::
  "('a::{inverse,numeral,zero,times}) library \<Rightarrow> ecg_explorer \<Rightarrow> 'a fhir_dataframe
     \<Rightarrow> ident list \<Rightarrow> string list \<times> (error + 'a ecg_figure list)" where
  "user_loop lib self fhir_dataframe [] = ([], Inr [])"
| "user_loop lib self fhir_dataframe (uid # uids) =
     (let selected = user_data self fhir_dataframe uid
      in if selected \<noteq> [] then
           (case plot_single_user_ecg lib self selected uid of
              Inl e \<Rightarrow> ([], Inl e)
            | Inr figs \<Rightarrow>
                (case user_loop lib self fhir_dataframe uids of
                   (outs, Inl e) \<Rightarrow> (outs, Inl e)
                 | (outs, Inr figures) \<Rightarrow> (outs, Inr (figs @ figures))))
         else
           (case user_loop lib self fhir_dataframe uids of
              (outs, res) \<Rightarrow>
                ((''No ECG data found for user ID: '' @ str_ident uid
                    @ '' in the given date range'') # outs, res)))"

definition plot_ecg_subplots ::
  "('a::{inverse,numeral,zero,times}) library \<Rightarrow> ecg_explorer \<Rightarrow> 'a fhir_dataframe
     \<Rightarrow> string list \<times> (error + 'a ecg_figure list)" where
  "plot_ecg_subplots lib self fhir_dataframe =
     (let users_to_plot =
            (case user_ids self of
               Some l \<Rightarrow> l
             | None \<Rightarrow> map Some (unique (map user_id (df fhir_dataframe))))
      in user_loop lib self fhir_dataframe users_to_plot)"

text \<open>
  The render call as a transition of the visualizer object, as for the generic visualizer:
  \<^verbatim>\<open>plot_ecg_subplots\<close> and the methods it calls read the attributes and assign to none.
\<close>

definition plot_ecg_subplots_call ::
  "('a::{inverse,numeral,zero,times}) library \<Rightarrow> 'a fhir_dataframe \<Rightarrow> ecg_explorer
     \<Rightarrow> (string list \<times> (error + 'a ecg_figure list)) \<times> ecg_explorer" where
  "plot_ecg_subplots_call lib fhir_dataframe self =
     (plot_ecg_subplots lib self fhir_dataframe, self)"

section \<open>The selector function\<close>

text \<open>
  The enumeration \<^verbatim>\<open>FHIRResourceType\<close> is declared in another module; the code names its
  members \<^verbatim>\<open>OBSERVATION\<close> and \<^verbatim>\<open>ECG_OBSERVATION\<close>. Any other value of the attribute
  \<^verbatim>\<open>resource_type\<close> is \<open>Other_resource s\<close>, where \<open>s\<close> is the text \<^verbatim>\<open>str\<close> gives
  for it.
\<close>

definition str_resource_type :: "resource_type \<Rightarrow> string" where
  "str_resource_type t =
     (case t of
        OBSERVATION \<Rightarrow> ''FHIRResourceType.OBSERVATION''
      | ECG_OBSERVATION \<Rightarrow> ''FHIRResourceType.ECG_OBSERVATION''
      | Other_resource s \<Rightarrow> s)"

datatype visualizer = Generic data_explorer | Waveform ecg_explorer

definition visualizer_factory :: "'a fhir_dataframe \<Rightarrow> error + visualizer" where
  "visualizer_factory fhir_dataframe =
     (if resource_type fhir_dataframe = OBSERVATION then Inr (Generic DataExplorer)
      else if resource_type fhir_dataframe = ECG_OBSERVATION then Inr (Waveform ECGExplorer)
      else Inl (ValueError (''Unsupported resource type: ''
                  @ str_resource_type (resource_type fhir_dataframe))))"

section \<open>The summary function\<close>

text \<open>
  \<^verbatim>\<open>explore_total_records_number\<close> takes a plain table with the columns
  \<^verbatim>\<open>EffectiveDateTime\<close>, \<^verbatim>\<open>LoincCode\<close> and \<^verbatim>\<open>UserId\<close>. A timestamp cell holds
  either a text or an already parsed datetime. \<^verbatim>\<open>pd.to_datetime\<close> is the library's
  parser, the parameter \<open>parse\<close> (\<open>None\<close> where it rejects the text); a parsed cell stays
  as it is.
\<close>

datatype cell = Text string | Datetime int

record plain_row =
  EffectiveDateTime :: cell
  LoincCode :: string
  UserId :: string

fun to_datetime_cell :: "(string \<Rightarrow> int option) \<Rightarrow> cell \<Rightarrow> error + cell" where
  "to_datetime_cell parse (Datetime t) = Inr (Datetime t)"
| "to_datetime_cell parse (Text s) =
     (case parse s of None \<Rightarrow> Inl (ValueError s) | Some t \<Rightarrow> Inr (Datetime t))"

fun to_datetime :: "(string \<Rightarrow> int option) \<Rightarrow> cell list \<Rightarrow> error + cell list" where
  "to_datetime parse [] = Inr []"
| "to_datetime parse (c # cs) =
     (case to_datetime_cell parse c of
        Inl e \<Rightarrow> Inl e
      | Inr d \<Rightarrow>
          (case to_datetime parse cs of
             Inl e \<Rightarrow> Inl e
           | Inr ds \<Rightarrow> Inr (d # ds)))"

text \<open>
  \<^verbatim>\<open>frame["EffectiveDateTime"] = column\<close>: the assignment writes the column into the
  frame object the caller passed.
\<close>

definition set_column :: "plain_row list \<Rightarrow> cell list \<Rightarrow> plain_row list" where
  "set_column rows column = map (\<lambda>(r, c). r\<lparr>EffectiveDateTime := c\<rparr>) (zip rows column)"

text \<open>
  The comparison of the timestamp column with a date given as text: the text is parsed, and
  a text the parser rejects raises \<^verbatim>\<open>TypeError\<close>. \<open>cell_time\<close> reads a parsed cell.
\<close>

definition cell_time :: "cell \<Rightarrow> int option" where
  "cell_time c = (case c of Datetime t \<Rightarrow> Some t | Text s \<Rightarrow> None)"

datatype id_filter = One_id string | Id_strings "string list"

record summary_result =
  caller_frame :: "plain_row list"
  plotted :: "error + (string \<times> string) list"

text \<open>
  The result holds the caller's frame as the call leaves it, and the rows handed to
  \<^verbatim>\<open>groupby(["LoincCode", "UserId"])\<close>, as pairs of code and identifier, from which the
  chart's counts are taken. Filtering rebinds the local name \<^verbatim>\<open>df\<close> to a new frame and
  does not write to the caller's.
\<close>

definition explore_total_records_number ::
  "(string \<Rightarrow> int option) \<Rightarrow> plain_row list \<Rightarrow> string option \<Rightarrow> string option
     \<Rightarrow> id_filter option \<Rightarrow> summary_result" where
  "explore_total_records_number parse frame start_date_arg end_date_arg user_ids_arg =
     (case to_datetime parse (map EffectiveDateTime frame) of
        Inl e \<Rightarrow> \<lparr>caller_frame = frame, plotted = Inl e\<rparr>
      | Inr column \<Rightarrow>
          (let frame1 = set_column frame column;
               dated =
                 (case (start_date_arg, end_date_arg) of
                    (Some s, Some e) \<Rightarrow>
                      (case (parse s, parse e) of
                         (Some ts, Some te) \<Rightarrow>
                           Inr (df_where frame1
                                  (mask_and
                                     (map (\<lambda>r. case cell_time (EffectiveDateTime r) of
                                                  Some t \<Rightarrow> t \<ge> ts | None \<Rightarrow> False) frame1)
                                     (map (\<lambda>r. case cell_time (EffectiveDateTime r) of
                                                  Some t \<Rightarrow> t \<le> te | None \<Rightarrow> False) frame1)))
                       | _ \<Rightarrow> Inl (TypeError (if parse s = None then s else e)))
                  | _ \<Rightarrow> Inr frame1)
           in case dated of
                Inl e \<Rightarrow> \<lparr>caller_frame = frame1, plotted = Inl e\<rparr>
              | Inr frame2 \<Rightarrow>
                  (let ids =
                         (case user_ids_arg of
                            None \<Rightarrow> None
                          | Some (One_id u) \<Rightarrow> Some [u]
                          | Some (Id_strings l) \<Rightarrow> Some l);
                       frame3 =
                         (case ids of
                            None \<Rightarrow> frame2
                          | Some l \<Rightarrow> df_where frame2 (map (\<lambda>r. UserId r \<in> set l) frame2))
                   in \<lparr>caller_frame = frame1,
                       plotted = Inr (map (\<lambda>r. (LoincCode r, UserId r)) frame3)\<rparr>)))"

section \<open>Example datasets\<close>

text \<open>
  Rows on which the theorems below are evaluated: a plain observation of an identifier under
  a code at a date, and a waveform observation with its payload, unit and sampling rate (no
  rate: the frame has no such column).
\<close>

definition observation :: "string \<Rightarrow> string \<Rightarrow> date \<Rightarrow> rat \<Rightarrow> rat row" where
  "observation u c d v =
     \<lparr>user_id = u, loinc_code = c, effective_date_time = d, quantity_name = ''Heart rate'',
      quantity_unit = ''beats/min'', quantity_value = v, ecg_recording = None,
      ecg_recording_unit = [], sampling_frequency = None\<rparr>"

definition ecg_observation :: "string \<Rightarrow> date \<Rightarrow> string option \<Rightarrow> string \<Rightarrow> rat option \<Rightarrow> rat row" where
  "ecg_observation u d payload unit rate =
     \<lparr>user_id = u, loinc_code = ''131328'', effective_date_time = d, quantity_name = ''ECG'',
      quantity_unit = unit, quantity_value = 0, ecg_recording = payload,
      ecg_recording_unit = unit, sampling_frequency = map_option Some rate\<rparr>"

text \<open>
  Libraries whose arithmetic is exact, on which examples are evaluated: the float parser on
  digit strings, \<^verbatim>\<open>np.arange\<close> with its \<open>\<lceil>(stop - start) / step\<rceil>\<close> elements, and a
  plotting library that raises only in \<^verbatim>\<open>ax.plot\<close>, when the two arrays differ in length.
\<close>

definition exact_arange :: "rat \<Rightarrow> rat \<Rightarrow> rat \<Rightarrow> error + rat list" where
  "exact_arange start stop step =
     (if step = 0 then Inl ZeroDivisionError
      else Inr (map (\<lambda>i. start + of_nat i * step) [0..<nat \<lceil>(stop - start) / step\<rceil>]))"

definition plot_raises :: "rat axes_call \<Rightarrow> error option" where
  "plot_raises c =
     (case c of
        Plot_line x y width \<Rightarrow>
          if length x \<noteq> length y then Some (ValueError ''x and y must have same first dimension'')
          else None
      | _ \<Rightarrow> None)"

definition exact_library :: "rat library" where
  "exact_library = \<lparr>to_float = digits_float, arange = exact_arange, raises = plot_raises\<rparr>"

section \<open>Facts about the table operations\<close>

lemma df_where_map: "df_where rows (map P rows) = filter P rows"
  by (induction rows) (auto simp: df_where_def)

lemma mask_and_map: "mask_and (map P rows) (map Q rows) = map (\<lambda>r. P r \<and> Q r) rows"
  by (induction rows) (auto simp: mask_and_def)

lemma any_duplicated_from:
  "any (duplicated_from seen xs) \<longleftrightarrow> \<not> distinct xs \<or> set xs \<inter> set seen \<noteq> {}"
  by (induction xs arbitrary: seen) (auto simp: any_def)

lemma any_duplicated: "any (duplicated xs) \<longleftrightarrow> \<not> distinct xs"
  by (simp add: duplicated_def any_duplicated_from)

lemma upt_3: "[0..<3] = [0, Suc 0, Suc (Suc 0)]"
  by (simp add: numeral_3_eq_3 upt_rec)

lemma ecg_parts_eq:
  "ecg_parts xs =
     [take (length xs div 3) xs,
      take (length xs div 3) (drop (length xs div 3) xs),
      take (length xs div 3) (drop (2 * (length xs div 3)) xs)]"
proof -
  define k where "k = length xs div 3"
  have s0: "py_slice xs (0 * k) ((0 + 1) * k) = take k xs"
    by (simp add: py_slice_def)
  have s1: "py_slice xs (Suc 0 * k) ((Suc 0 + 1) * k) = take k (drop k xs)"
    by (simp add: py_slice_def drop_take)
  have "Suc (Suc 0) * k = 2 * k" "(Suc (Suc 0) + 1) * k - 2 * k = k" by simp_all
  then have s2: "py_slice xs (Suc (Suc 0) * k) ((Suc (Suc 0) + 1) * k) = take k (drop (2 * k) xs)"
    by (simp only: py_slice_def drop_take)
  show ?thesis
    unfolding ecg_parts_def Let_def upt_3 k_def [symmetric]
    using s0 s1 s2 by simp
qed

lemma ecg_parts_length:
  "map length (ecg_parts xs) = [length xs div 3, length xs div 3, length xs div 3]"
proof -
  define k where "k = length xs div 3"
  have le: "3 * k \<le> length xs" by (simp add: k_def)
  have "length (take k xs) = k" "length (take k (drop k xs)) = k"
    "length (take k (drop (2 * k) xs)) = k"
    using le by simp_all
  then show ?thesis
    unfolding ecg_parts_eq k_def by simp
qed

lemma ecg_parts_concat: "concat (ecg_parts xs) = take (3 * (length xs div 3)) xs"
proof -
  define k where "k = length xs div 3"
  have a: "take (k + k) xs = take k xs @ take k (drop k xs)" by (rule take_add)
  have b: "take ((k + k) + k) xs = take (k + k) xs @ take k (drop (k + k) xs)" by (rule take_add)
  have c: "k + k = 2 * k" "2 * k + k = 3 * k" by simp_all
  have "take k xs @ take k (drop k xs) @ take k (drop (2 * k) xs) = take (3 * k) xs"
    using a b by (simp only: c append_assoc)
  then show ?thesis by (simp add: ecg_parts_eq k_def)
qed

lemma ecg_parts_map: "ecg_parts (map f xs) = map (map f) (ecg_parts xs)"
  by (simp add: ecg_parts_eq take_map drop_map)

section \<open>Properties of the waveform visualizer\<close>

lemma call_axes_Inr: "call_axes lib cs = Inr made \<Longrightarrow> made = cs"
  by (induction cs arbitrary: made) (auto split: option.splits sum.splits)

lemma call_axes_quiet: "\<forall>c\<in>set cs. raises lib c = None \<Longrightarrow> call_axes lib cs = Inr cs"
  by (induction cs) auto

lemma in_turn_map_Inr: "in_turn (map Inr xs) = Inr xs"
  by (induction xs) auto

lemma in_turn_Inr_D: "in_turn rs = Inr xs \<Longrightarrow> rs = map Inr xs"
  by (induction rs arbitrary: xs) (auto split: sum.splits)

lemma in_turn_Inr: "in_turn rs = Inr xs \<longleftrightarrow> rs = map Inr xs"
  using in_turn_Inr_D in_turn_map_Inr by blast

lemma ax_plot_Inr:
  "ax_plot lib self x y secs = Inr drawn \<Longrightarrow> axes_samples drawn = y"
  unfolding ax_plot_def by (drule call_axes_Inr) (simp add: axes_samples_def)

lemma plot_single_lead_ecg_Inr:
  assumes "plot_single_lead_ecg lib self ecg sample_rate title = Inr ax"
  shows "\<exists>rate x drawn.
           sample_rate = Some rate \<and> rate \<noteq> 0
           \<and> arange lib 0 (of_len (length ecg) * (1 / rate)) (1 / rate) = Inr x
           \<and> ax_plot lib self x ecg (of_len (length ecg) / rate) = Inr drawn
           \<and> ax = [Set_title title, Set_ylabel ''ECG (mV)'', Set_xlabel ''Time (sec)''] @ drawn"
proof -
  let ?labels = "[Set_title title, Set_ylabel ''ECG (mV)'', Set_xlabel ''Time (sec)'']"
  note d = assms [unfolded plot_single_lead_ecg_def Let_def]
  from d obtain labelled where l: "call_axes lib ?labels = Inr labelled"
    by (cases "call_axes lib ?labels") simp_all
  then have ll: "labelled = ?labels" by (rule call_axes_Inr)
  from d l obtain rate where r: "sample_rate = Some rate"
    by (cases sample_rate) simp_all
  from d l r have nz: "rate \<noteq> 0"
    by (cases "rate = 0") simp_all
  from d l r nz obtain x
    where x: "arange lib 0 (of_len (length ecg) * (1 / rate)) (1 / rate) = Inr x"
    by (cases "arange lib 0 (of_len (length ecg) * (1 / rate)) (1 / rate)") simp_all
  from d l r nz x obtain drawn
    where p: "ax_plot lib self x ecg (of_len (length ecg) / rate) = Inr drawn"
    by (cases "ax_plot lib self x ecg (of_len (length ecg) / rate)") simp_all
  from d l r nz x p have "ax = labelled @ drawn" by simp
  with ll r nz x p show ?thesis by blast
qed

lemma plot_single_lead_ecg_samples:
  assumes "plot_single_lead_ecg lib self ecg sample_rate title = Inr ax"
  shows "axes_samples ax = ecg"
proof -
  from plot_single_lead_ecg_Inr [OF assms] obtain rate x drawn
    where p: "ax_plot lib self x ecg (of_len (length ecg) / rate) = Inr drawn"
      and a: "ax = [Set_title title, Set_ylabel ''ECG (mV)'', Set_xlabel ''Time (sec)''] @ drawn"
    by blast
  from ax_plot_Inr [OF p] a show ?thesis by (simp add: axes_samples_def)
qed

lemma plot_single_lead_ecg_no_rate:
  "plot_single_lead_ecg lib self ecg None title \<noteq> Inr ax"
  "plot_single_lead_ecg lib self ecg (Some 0) title \<noteq> Inr ax"
  using plot_single_lead_ecg_Inr [of lib self ecg None title ax]
    plot_single_lead_ecg_Inr [of lib self ecg "Some 0" title ax]
  by auto

lemma length_ecg_array_of: "length (ecg_array_of r parsed) = length parsed"
  by (simp add: ecg_array_of_def)

lemma in_turn_three:
  "in_turn [a, b, c] = Inr fig \<Longrightarrow> \<exists>x y z. fig = [x, y, z] \<and> a = Inr x \<and> b = Inr y \<and> c = Inr z"
  by (drule in_turn_Inr_D) (cases fig rule: list.exhaust; auto simp: map_eq_Cons_conv)

lemma plot_row_samples:
  fixes r :: "('a::{inverse,numeral,zero,times}) row"
  assumes "ecg_recording r = Some payload"
    and "array_float (to_float lib) (str_split payload) = Inr parsed"
    and "plot_row lib self uid r = Inr fig"
  shows "map axes_samples fig = ecg_parts (ecg_array_of r parsed)"
proof -
  let ?xs = "ecg_array_of r parsed"
  let ?k = "length ?xs div 3"
  let ?lead = "\<lambda>i ecg. plot_single_lead_ecg lib self ecg (sample_rate_of r)
      \<lparr>part = i + 1, title_user = uid, title_date = effective_date_time r\<rparr>"
  have "plot_row lib self uid r =
      in_turn [?lead 0 (take ?k ?xs), ?lead (Suc 0) (take ?k (drop ?k ?xs)),
               ?lead (Suc (Suc 0)) (take ?k (drop (2 * ?k) ?xs))]"
    by (simp add: plot_row_def Let_def assms(1,2) ecg_parts_eq)
  with assms(3) obtain x y z where fig: "fig = [x, y, z]"
    and l: "?lead 0 (take ?k ?xs) = Inr x" "?lead (Suc 0) (take ?k (drop ?k ?xs)) = Inr y"
      "?lead (Suc (Suc 0)) (take ?k (drop (2 * ?k) ?xs)) = Inr z"
    using in_turn_three by metis
  from l have "axes_samples x = take ?k ?xs" "axes_samples y = take ?k (drop ?k ?xs)"
    "axes_samples z = take ?k (drop (2 * ?k) ?xs)"
    by (simp_all only: plot_single_lead_ecg_samples)
  with fig show ?thesis by (simp add: ecg_parts_eq)
qed

lemma plot_single_user_ecg_Inr:
  assumes "plot_single_user_ecg lib self user_rows uid = Inr figs"
  shows "length figs = length user_rows
     \<and> (\<forall>i<length user_rows. plot_row lib self uid (user_rows ! i) = Inr (figs ! i))"
proof -
  from assms have m: "map (plot_row lib self uid) user_rows = map Inr figs"
    unfolding plot_single_user_ecg_def by (rule in_turn_Inr_D)
  then have len: "length figs = length user_rows"
    by (metis length_map)
  moreover have "plot_row lib self uid (user_rows ! i) = Inr (figs ! i)"
    if "i < length user_rows" for i
    using m that len by (metis nth_map)
  ultimately show ?thesis by blast
qed

lemma example_payload:
  "array_float digits_float (str_split ''1 2 3 4 5 6 7'') = Inr [1, 2, 3, 4, 5, 6, 7]"
  by code_simp

lemma example_payload_uv:
  "array_float digits_float (str_split ''5 7 9'') = Inr [5, 7, 9]"
  by code_simp

text \<open>
  Claim C1. For a row whose payload parses into a sequence of length \<open>L\<close>, the waveform
  visualizer splits the sequence into three segments of \<open>L div 3\<close> samples each which, put
  one after the other, are the first \<open>3 * (L div 3)\<close> samples in order, so that the
  trailing remainder is dropped; whenever the row's figure is drawn, it has exactly three
  axes and they show these segments, and \<^verbatim>\<open>plot_single_user_ecg\<close> returns one such figure
  per row. In particular the payload \<^verbatim>\<open>1 2 3 4 5 6\<close> in millivolt at sample rate 2 yields
  the segments \<open>[1,2]\<close>, \<open>[3,4]\<close>, \<open>[5,6]\<close>.
\<close>

theorem waveform_three_segments:
  fixes r :: "('a::{inverse,numeral,zero,times}) row"
  shows
  "(ecg_recording r = Some payload \<and> array_float (to_float lib) (str_split payload) = Inr parsed \<longrightarrow>
      map length (ecg_parts (ecg_array_of r parsed))
        = [length parsed div 3, length parsed div 3, length parsed div 3]
      \<and> concat (ecg_parts (ecg_array_of r parsed))
        = take (3 * (length parsed div 3)) (ecg_array_of r parsed)
      \<and> (\<forall>fig. plot_row lib self uid r = Inr fig \<longrightarrow>
            length fig = 3 \<and> map axes_samples fig = ecg_parts (ecg_array_of r parsed)))
   \<and> (\<forall>figs. plot_single_user_ecg lib self user_rows uid = Inr figs \<longrightarrow>
         length figs = length user_rows
         \<and> (\<forall>i<length user_rows. plot_row lib self uid (user_rows ! i) = Inr (figs ! i)))
   \<and> map_sum id (map axes_samples)
        (plot_row exact_library ECGExplorer (Some ''A'')
           (ecg_observation ''A'' 738000 (Some ''1 2 3 4 5 6'') ''mV'' (Some 2)))
      = Inr [[1, 2], [3, 4], [5, 6]]"
proof (intro conjI impI allI)
  assume a: "ecg_recording r = Some payload
      \<and> array_float (to_float lib) (str_split payload) = Inr parsed"
  show "map length (ecg_parts (ecg_array_of r parsed))
        = [length parsed div 3, length parsed div 3, length parsed div 3]"
    by (simp only: ecg_parts_length length_ecg_array_of)
  show "concat (ecg_parts (ecg_array_of r parsed))
        = take (3 * (length parsed div 3)) (ecg_array_of r parsed)"
    by (simp only: ecg_parts_concat length_ecg_array_of)
  fix fig
  assume f: "plot_row lib self uid r = Inr fig"
  from a f show s: "map axes_samples fig = ecg_parts (ecg_array_of r parsed)"
    using plot_row_samples [of r payload lib parsed self uid fig] by simp
  have "length (map axes_samples fig) = 3"
    unfolding s by (simp add: ecg_parts_eq)
  then show "length fig = 3" by simp
next
  fix figs
  assume "plot_single_user_ecg lib self user_rows uid = Inr figs"
  then show "length figs = length user_rows"
    by (simp add: plot_single_user_ecg_Inr)
next
  fix figs i
  assume "plot_single_user_ecg lib self user_rows uid = Inr figs" "i < length user_rows"
  then show "plot_row lib self uid (user_rows ! i) = Inr (figs ! i)"
    by (simp add: plot_single_user_ecg_Inr)
next
  show "map_sum id (map axes_samples)
        (plot_row exact_library ECGExplorer (Some ''A'')
           (ecg_observation ''A'' 738000 (Some ''1 2 3 4 5 6'') ''mV'' (Some 2)))
      = Inr [[1, 2], [3, 4], [5, 6]]"
    by code_simp
qed

theorem waveform_three_segments_witness:
  "ecg_recording (ecg_observation ''A'' 738000 (Some ''1 2 3 4 5 6 7'') ''mV'' (Some 2))
      = Some ''1 2 3 4 5 6 7''
   \<and> array_float (to_float exact_library) (str_split ''1 2 3 4 5 6 7'')
      = Inr [1, 2, 3, 4, 5, 6, 7]
   \<and> (\<exists>fig. plot_row exact_library ECGExplorer (Some ''A'')
               (ecg_observation ''A'' 738000 (Some ''1 2 3 4 5 6 7'') ''mV'' (Some 2)) = Inr fig
         \<and> length fig = 3
         \<and> map axes_samples fig = [[1, 2], [3, 4], [5, 6]]
         \<and> plot_single_user_ecg exact_library ECGExplorer
              [ecg_observation ''A'' 738000 (Some ''1 2 3 4 5 6 7'') ''mV'' (Some 2)] (Some ''A'')
            = Inr [fig])"
proof -
  let ?q = "ecg_observation ''A'' 738000 (Some ''1 2 3 4 5 6 7'') ''mV'' (Some 2)"
  have h1: "ecg_recording ?q = Some ''1 2 3 4 5 6 7''" by (simp add: ecg_observation_def)
  have h2: "array_float (to_float exact_library) (str_split ''1 2 3 4 5 6 7'')
      = Inr [1, 2, 3, 4, 5, 6, 7]"
    by (simp add: exact_library_def example_payload)
  have arr: "ecg_array_of ?q [1, 2, 3, 4, 5, 6, 7] = [1, 2, 3, 4, 5, 6, 7]"
    by (simp add: ecg_array_of_def ecg_observation_def ECG_MICROVOLT_UNIT_def)
  have parts: "ecg_parts [1, 2, 3, 4, 5, 6, 7 :: rat] = [[1, 2], [3, 4], [5, 6]]"
    by (simp add: ecg_parts_eq)
  have "map_sum id (map axes_samples) (plot_row exact_library ECGExplorer (Some ''A'') ?q)
      = Inr [[1, 2], [3, 4], [5, 6]]"
    by code_simp
  then obtain fig where f: "plot_row exact_library ECGExplorer (Some ''A'') ?q = Inr fig"
    by (cases "plot_row exact_library ECGExplorer (Some ''A'') ?q") auto
  then have u: "plot_single_user_ecg exact_library ECGExplorer [?q] (Some ''A'') = Inr [fig]"
    by (simp add: plot_single_user_ecg_def)
  note t = waveform_three_segments [of ?q "''1 2 3 4 5 6 7''" exact_library
      "[1, 2, 3, 4, 5, 6, 7]" ECGExplorer "Some ''A''" "[?q]"]
  from t have "ecg_recording ?q = Some ''1 2 3 4 5 6 7''
      \<and> array_float (to_float exact_library) (str_split ''1 2 3 4 5 6 7'')
          = Inr [1, 2, 3, 4, 5, 6, 7] \<longrightarrow>
      map length (ecg_parts (ecg_array_of ?q [1, 2, 3, 4, 5, 6, 7]))
        = [length [1, 2, 3, 4, 5, 6, 7 :: rat] div 3, length [1, 2, 3, 4, 5, 6, 7 :: rat] div 3,
           length [1, 2, 3, 4, 5, 6, 7 :: rat] div 3]
      \<and> concat (ecg_parts (ecg_array_of ?q [1, 2, 3, 4, 5, 6, 7]))
        = take (3 * (length [1, 2, 3, 4, 5, 6, 7 :: rat] div 3))
            (ecg_array_of ?q [1, 2, 3, 4, 5, 6, 7])
      \<and> (\<forall>fig. plot_row exact_library ECGExplorer (Some ''A'') ?q = Inr fig \<longrightarrow>
            length fig = 3
            \<and> map axes_samples fig = ecg_parts (ecg_array_of ?q [1, 2, 3, 4, 5, 6, 7]))"
    by (rule conjunct1)
  with h1 h2 f have "length fig = 3
      \<and> map axes_samples fig = ecg_parts (ecg_array_of ?q [1, 2, 3, 4, 5, 6, 7])"
    by blast
  then have fl: "length fig = 3" "map axes_samples fig = [[1, 2], [3, 4], [5, 6]]"
    by (simp_all only: arr parts)
  have ex: "\<exists>fig. plot_row exact_library ECGExplorer (Some ''A'') ?q = Inr fig
         \<and> length fig = 3
         \<and> map axes_samples fig = [[1, 2], [3, 4], [5, 6]]
         \<and> plot_single_user_ecg exact_library ECGExplorer [?q] (Some ''A'') = Inr [fig]"
    by (rule exI [of _ fig]) (simp only: f fl u simp_thms)
  show ?thesis
    by (intro conjI) (rule h1, rule h2, rule ex)
qed

text \<open>
  Claim C4. For a row whose payload parses, if the declared recording unit is the microvolt
  unit then every parsed sample is divided by 1000 before rendering, and the segments drawn
  are those of the parsed sequence with every sample divided by 1000; if the declared unit is
  the millivolt unit then the samples are passed on unchanged, and the segments drawn are
  those of the parsed sequence.
\<close>

theorem unit_conversion:
  fixes r :: "('a::{inverse,numeral,zero,times}) row"
  shows
  "ecg_recording r = Some payload \<and> array_float (to_float lib) (str_split payload) = Inr parsed \<longrightarrow>
     (ecg_recording_unit r = ECG_MICROVOLT_UNIT \<longrightarrow>
        ecg_array_of r parsed = map (\<lambda>x. x / 1000) parsed
        \<and> (\<forall>fig. plot_row lib self uid r = Inr fig \<longrightarrow>
              map axes_samples fig = map (map (\<lambda>x. x / 1000)) (ecg_parts parsed)))
     \<and> (ecg_recording_unit r = ECG_MILLIVOLT_UNIT \<longrightarrow>
        ecg_array_of r parsed = parsed
        \<and> (\<forall>fig. plot_row lib self uid r = Inr fig \<longrightarrow> map axes_samples fig = ecg_parts parsed))"
proof (intro impI conjI allI)
  assume a: "ecg_recording r = Some payload
      \<and> array_float (to_float lib) (str_split payload) = Inr parsed"
  {
    assume u: "ecg_recording_unit r = ECG_MICROVOLT_UNIT"
    then show e: "ecg_array_of r parsed = map (\<lambda>x. x / 1000) parsed"
      by (simp add: ecg_array_of_def)
    fix fig
    assume "plot_row lib self uid r = Inr fig"
    with a have "map axes_samples fig = ecg_parts (ecg_array_of r parsed)"
      using plot_row_samples [of r payload lib parsed self uid fig] by simp
    then show "map axes_samples fig = map (map (\<lambda>x. x / 1000)) (ecg_parts parsed)"
      by (simp only: e ecg_parts_map)
  }
  {
    assume u: "ecg_recording_unit r = ECG_MILLIVOLT_UNIT"
    then show e: "ecg_array_of r parsed = parsed"
      by (simp add: ecg_array_of_def ECG_MILLIVOLT_UNIT_def ECG_MICROVOLT_UNIT_def)
    fix fig
    assume "plot_row lib self uid r = Inr fig"
    with a have "map axes_samples fig = ecg_parts (ecg_array_of r parsed)"
      using plot_row_samples [of r payload lib parsed self uid fig] by simp
    then show "map axes_samples fig = ecg_parts parsed"
      by (simp only: e)
  }
qed

theorem unit_conversion_witness:
  "ecg_recording (ecg_observation ''A'' 738000 (Some ''5 7 9'') ''uV'' None) = Some ''5 7 9''
   \<and> array_float (to_float exact_library) (str_split ''5 7 9'') = Inr [5, 7, 9]
   \<and> ecg_recording_unit (ecg_observation ''A'' 738000 (Some ''5 7 9'') ''uV'' None)
      = ECG_MICROVOLT_UNIT
   \<and> (\<exists>fig. plot_row exact_library ECGExplorer (Some ''A'')
               (ecg_observation ''A'' 738000 (Some ''5 7 9'') ''uV'' None) = Inr fig
         \<and> map axes_samples fig = [[5 / 1000], [7 / 1000], [9 / 1000]])
   \<and> ecg_recording (ecg_observation ''A'' 738000 (Some ''5 7 9'') ''mV'' None) = Some ''5 7 9''
   \<and> ecg_recording_unit (ecg_observation ''A'' 738000 (Some ''5 7 9'') ''mV'' None)
      = ECG_MILLIVOLT_UNIT
   \<and> (\<exists>fig. plot_row exact_library ECGExplorer (Some ''A'')
               (ecg_observation ''A'' 738000 (Some ''5 7 9'') ''mV'' None) = Inr fig
         \<and> map axes_samples fig = [[5], [7], [9]])"
proof -
  let ?u = "ecg_observation ''A'' 738000 (Some ''5 7 9'') ''uV'' None"
  let ?m = "ecg_observation ''A'' 738000 (Some ''5 7 9'') ''mV'' None"
  have u1: "ecg_recording ?u = Some ''5 7 9''" by (simp add: ecg_observation_def)
  have m1: "ecg_recording ?m = Some ''5 7 9''" by (simp add: ecg_observation_def)
  have u2: "ecg_recording_unit ?u = ECG_MICROVOLT_UNIT"
    by (simp add: ecg_observation_def ECG_MICROVOLT_UNIT_def)
  have m2: "ecg_recording_unit ?m = ECG_MILLIVOLT_UNIT"
    by (simp add: ecg_observation_def ECG_MILLIVOLT_UNIT_def)
  have h2: "array_float (to_float exact_library) (str_split ''5 7 9'') = Inr [5, 7, 9]"
    by (simp add: exact_library_def example_payload_uv)
  have p: "ecg_parts [5, 7, 9 :: rat] = [[5], [7], [9]]"
    by (simp add: ecg_parts_eq)
  have "map_sum id (map axes_samples) (plot_row exact_library ECGExplorer (Some ''A'') ?u)
      = Inr [[5 / 1000], [7 / 1000], [9 / 1000]]"
    by code_simp
  then obtain fu where fu: "plot_row exact_library ECGExplorer (Some ''A'') ?u = Inr fu"
    by (cases "plot_row exact_library ECGExplorer (Some ''A'') ?u") auto
  have "map_sum id (map axes_samples) (plot_row exact_library ECGExplorer (Some ''A'') ?m)
      = Inr [[5], [7], [9]]"
    by code_simp
  then obtain fm where fm: "plot_row exact_library ECGExplorer (Some ''A'') ?m = Inr fm"
    by (cases "plot_row exact_library ECGExplorer (Some ''A'') ?m") auto
  note tu = unit_conversion [of ?u "''5 7 9''" exact_library "[5, 7, 9]" ECGExplorer "Some ''A''"]
  note tm = unit_conversion [of ?m "''5 7 9''" exact_library "[5, 7, 9]" ECGExplorer "Some ''A''"]
  from tu u1 u2 h2 fu
  have "map axes_samples fu = map (map (\<lambda>x. x / 1000)) (ecg_parts [5, 7, 9])"
    by blast
  then have a: "map axes_samples fu = [[5 / 1000], [7 / 1000], [9 / 1000]]"
    by (simp only: p list.map)
  from tm m1 m2 h2 fm have "map axes_samples fm = ecg_parts [5, 7, 9]"
    by blast
  then have b: "map axes_samples fm = [[5], [7], [9]]"
    by (simp only: p)
  have exu: "\<exists>fig. plot_row exact_library ECGExplorer (Some ''A'') ?u = Inr fig
         \<and> map axes_samples fig = [[5 / 1000], [7 / 1000], [9 / 1000]]"
    by (rule exI [of _ fu]) (simp only: fu a simp_thms)
  have exm: "\<exists>fig. plot_row exact_library ECGExplorer (Some ''A'') ?m = Inr fig
         \<and> map axes_samples fig = [[5], [7], [9]]"
    by (rule exI [of _ fm]) (simp only: fm b simp_thms)
  show ?thesis
    by (intro conjI) (rule u1, rule h2, rule u2, rule exu, rule m1, rule m2, rule exm)
qed

text \<open>
  The drawing of a lead divides by the sample rate: a row whose rate cell holds
  \<^verbatim>\<open>None\<close> or zero yields no figure but an exception, \<^verbatim>\<open>TypeError\<close> and
  \<^verbatim>\<open>ZeroDivisionError\<close> when the plotting library raises none before.
\<close>

theorem lead_needs_a_sample_rate:
  fixes r :: "('a::{inverse,numeral,zero,times}) row"
  shows
  "ecg_recording r = Some payload
     \<and> array_float (to_float lib) (str_split payload) = Inr parsed
     \<and> (sample_rate_of r = None \<or> sample_rate_of r = Some 0) \<longrightarrow>
   (\<exists>e. plot_row lib self uid r = Inl e)
   \<and> ((\<forall>c. raises lib c = None) \<longrightarrow>
        plot_row lib self uid r
          = Inl (if sample_rate_of r = None then TypeError ''NoneType'' else ZeroDivisionError))"
proof (intro impI conjI)
  assume a: "ecg_recording r = Some payload
     \<and> array_float (to_float lib) (str_split payload) = Inr parsed
     \<and> (sample_rate_of r = None \<or> sample_rate_of r = Some 0)"
  let ?xs = "ecg_array_of r parsed"
  let ?k = "length ?xs div 3"
  let ?lead = "\<lambda>i ecg. plot_single_lead_ecg lib self ecg (sample_rate_of r)
      \<lparr>part = i + 1, title_user = uid, title_date = effective_date_time r\<rparr>"
  have pr: "plot_row lib self uid r =
      in_turn [?lead 0 (take ?k ?xs), ?lead (Suc 0) (take ?k (drop ?k ?xs)),
               ?lead (Suc (Suc 0)) (take ?k (drop (2 * ?k) ?xs))]"
    using a by (simp add: plot_row_def Let_def ecg_parts_eq)
  have "\<exists>e. ?lead 0 (take ?k ?xs) = Inl e"
    using a plot_single_lead_ecg_no_rate [of lib self "take ?k ?xs"]
    by (cases "?lead 0 (take ?k ?xs)") auto
  then show "\<exists>e. plot_row lib self uid r = Inl e"
    unfolding pr by auto
  assume q: "\<forall>c. raises lib c = None"
  then have "?lead 0 (take ?k ?xs)
      = Inl (if sample_rate_of r = None then TypeError ''NoneType'' else ZeroDivisionError)"
    using a by (auto simp: plot_single_lead_ecg_def)
  then show "plot_row lib self uid r
          = Inl (if sample_rate_of r = None then TypeError ''NoneType'' else ZeroDivisionError)"
    unfolding pr by simp
qed

theorem lead_needs_a_sample_rate_witness:
  "plot_row exact_library ECGExplorer (Some ''A'')
     (ecg_observation ''A'' 738000 (Some ''1 2 3 4 5 6'') ''mV'' (Some 0)) = Inl ZeroDivisionError
   \<and> plot_row exact_library ECGExplorer (Some ''A'')
     ((ecg_observation ''A'' 738000 (Some ''1 2 3 4 5 6'') ''mV'' None)
        \<lparr>sampling_frequency := Some None\<rparr>) = Inl (TypeError ''NoneType'')"
  by code_simp

text \<open>
  Claim C5. With both bounds of the date range set, the rows the waveform visualizer selects
  for an identifier are exactly the rows of the dataset, in order, that carry this identifier
  and whose timestamp lies between the start and the end, both included; a row outside the
  range is not selected.
\<close>

theorem waveform_date_selection:
  "ecg_explorer.start_date self = Some s \<and> ecg_explorer.end_date self = Some e \<longrightarrow>
     user_data self fhir uid
       = filter (\<lambda>r. Some (user_id r) = uid \<and> s \<le> effective_date_time r
                      \<and> effective_date_time r \<le> e) (df fhir)"
proof
  assume a: "ecg_explorer.start_date self = Some s \<and> ecg_explorer.end_date self = Some e"
  have "mask_and
          (mask_and (map (\<lambda>r. Some (user_id r) = uid) (df fhir))
             (map (\<lambda>r. effective_date_time r \<ge> s) (df fhir)))
          (map (\<lambda>r. effective_date_time r \<le> e) (df fhir))
        = map (\<lambda>r. (Some (user_id r) = uid \<and> s \<le> effective_date_time r)
                     \<and> effective_date_time r \<le> e) (df fhir)"
    by (simp only: mask_and_map)
  then show "user_data self fhir uid
       = filter (\<lambda>r. Some (user_id r) = uid \<and> s \<le> effective_date_time r
                      \<and> effective_date_time r \<le> e) (df fhir)"
    using a by (simp add: user_data_def df_where_map)
qed

theorem waveform_date_selection_witness:
  "ecg_explorer.start_date (ECGExplorer\<lparr>ecg_explorer.start_date := Some 10, ecg_explorer.end_date := Some 20\<rparr>) = Some 10
   \<and> ecg_explorer.end_date (ECGExplorer\<lparr>ecg_explorer.start_date := Some 10, ecg_explorer.end_date := Some 20\<rparr>) = Some 20
   \<and> user_data (ECGExplorer\<lparr>ecg_explorer.start_date := Some 10, ecg_explorer.end_date := Some 20\<rparr>)
        \<lparr>df = [ecg_observation ''A'' 9 None ''mV'' None, ecg_observation ''A'' 10 None ''mV'' None,
               ecg_observation ''B'' 15 None ''mV'' None, ecg_observation ''A'' 20 None ''mV'' None,
               ecg_observation ''A'' 21 None ''mV'' None],
         resource_type = ECG_OBSERVATION\<rparr> (Some ''A'')
      = [ecg_observation ''A'' 10 None ''mV'' None, ecg_observation ''A'' 20 None ''mV'' None]"
proof -
  let ?self = "ECGExplorer\<lparr>ecg_explorer.start_date := Some 10, ecg_explorer.end_date := Some 20\<rparr>"
  let ?fhir = "\<lparr>df = [ecg_observation ''A'' 9 None ''mV'' None, ecg_observation ''A'' 10 None ''mV'' None,
               ecg_observation ''B'' 15 None ''mV'' None, ecg_observation ''A'' 20 None ''mV'' None,
               ecg_observation ''A'' 21 None ''mV'' None],
         resource_type = ECG_OBSERVATION\<rparr>"
  have h: "ecg_explorer.start_date ?self = Some 10" "ecg_explorer.end_date ?self = Some 20"
    by (simp_all add: ECGExplorer_def)
  from waveform_date_selection [of ?self 10 20 ?fhir "Some ''A''"] h
  show ?thesis
    by (simp add: ecg_observation_def)
qed

section \<open>Properties of the generic visualizer\<close>

text \<open>
  Claim C2. For the rows of one identifier handed to \<^verbatim>\<open>plot_data_based_on_condition\<close>,
  scatter rendering is selected if and only if some timestamp occurs twice among the rows, and
  bar rendering if and only if the timestamps are pairwise distinct; the plotting call made
  is of the selected kind.
\<close>

theorem scatter_iff_duplicate_timestamp:
  "(plot_type (fst (plot_data_based_on_condition user_df uid)) = Scatter
      \<longleftrightarrow> \<not> distinct (map effective_date_time user_df))
   \<and> (plot_type (fst (plot_data_based_on_condition user_df uid)) = Bar
      \<longleftrightarrow> distinct (map effective_date_time user_df))
   \<and> snd (plot_data_based_on_condition user_df uid)
       = Plot (if distinct (map effective_date_time user_df) then Bar else Scatter)
           (map effective_date_time user_df) (map quantity_value user_df)
           (''User '' @ str_ident uid)"
  by (simp add: plot_data_based_on_condition_def Let_def any_duplicated)

theorem scatter_iff_duplicate_timestamp_witness:
  "plot_type (fst (plot_data_based_on_condition
       [observation ''A'' ''X'' 5 70, observation ''A'' ''X'' 6 71, observation ''A'' ''X'' 5 72]
       (Some ''A''))) = Scatter
   \<and> snd (plot_data_based_on_condition
       [observation ''A'' ''X'' 5 70, observation ''A'' ''X'' 6 71, observation ''A'' ''X'' 5 72]
       (Some ''A'')) = Plot Scatter [5, 6, 5] [70, 71, 72] ''User A''
   \<and> plot_type (fst (plot_data_based_on_condition
       [observation ''A'' ''X'' 5 70, observation ''A'' ''X'' 6 71] (Some ''A''))) = Bar
   \<and> snd (plot_data_based_on_condition
       [observation ''A'' ''X'' 5 70, observation ''A'' ''X'' 6 71] (Some ''A''))
       = Plot Bar [5, 6] [70, 71] ''User A''"
  using scatter_iff_duplicate_timestamp
      [of "[observation ''A'' ''X'' 5 70, observation ''A'' ''X'' 6 71, observation ''A'' ''X'' 5 72]"
        "Some ''A''"]
    scatter_iff_duplicate_timestamp
      [of "[observation ''A'' ''X'' 5 70, observation ''A'' ''X'' 6 71]" "Some ''A''"]
  by (simp add: observation_def str_ident_def)

section \<open>Properties of the selector function\<close>

text \<open>
  Claim C3. \<^verbatim>\<open>visualizer_factory\<close> returns a fresh \<^verbatim>\<open>DataExplorer\<close> when the
  dataset's resource type is \<^verbatim>\<open>OBSERVATION\<close>, a fresh \<^verbatim>\<open>ECGExplorer\<close> when it is
  \<^verbatim>\<open>ECG_OBSERVATION\<close>, and for every other value raises \<^verbatim>\<open>ValueError\<close> with a message
  that names the value.
\<close>

theorem visualizer_factory_selects:
  "(resource_type fhir = OBSERVATION \<longrightarrow> visualizer_factory fhir = Inr (Generic DataExplorer))
   \<and> (resource_type fhir = ECG_OBSERVATION \<longrightarrow> visualizer_factory fhir = Inr (Waveform ECGExplorer))
   \<and> (resource_type fhir = Other_resource k \<longrightarrow>
        visualizer_factory fhir = Inl (ValueError (''Unsupported resource type: '' @ k)))"
  by (simp add: visualizer_factory_def str_resource_type_def)

theorem visualizer_factory_selects_witness:
  "visualizer_factory \<lparr>df = [observation ''A'' ''X'' 5 70], resource_type = OBSERVATION\<rparr>
     = Inr (Generic DataExplorer)
   \<and> visualizer_factory \<lparr>df = [ecg_observation ''A'' 5 None ''mV'' None], resource_type = ECG_OBSERVATION\<rparr>
     = Inr (Waveform ECGExplorer)
   \<and> visualizer_factory \<lparr>df = [observation ''A'' ''X'' 5 70],
        resource_type = Other_resource ''QuestionnaireResponse''\<rparr>
     = Inl (ValueError ''Unsupported resource type: QuestionnaireResponse'')"
  using visualizer_factory_selects
      [of "\<lparr>df = [observation ''A'' ''X'' 5 70], resource_type = OBSERVATION\<rparr>" "[]"]
    visualizer_factory_selects
      [of "\<lparr>df = [ecg_observation ''A'' 5 None ''mV'' None], resource_type = ECG_OBSERVATION\<rparr>" "[]"]
    visualizer_factory_selects
      [of "\<lparr>df = [observation ''A'' ''X'' 5 70],
        resource_type = Other_resource ''QuestionnaireResponse''\<rparr>" "''QuestionnaireResponse''"]
  by simp

end
